theory Spec2Isabelle
  imports Main "HOL-Library.AList" "HOL-Library.Sublist"
begin

section \<open>Python values used by the pipeline helper\<close>

text \<open>
  Strings are lists of characters; a character stands for a code point below 256.
  A Python \<^verbatim>\<open>dict\<close> of strings is an association list in insertion order (the order
  is visible in \<^verbatim>\<open>list(values.keys())\<close>); a well-formed one has distinct keys.
  Exceptions are values: \<open>KeyError\<close> and \<open>ValueError\<close> carry their argument,
  \<open>OtherError\<close> stands for every other exception class.
\<close>

datatype py_error = KeyError string | ValueError string | OtherError string

type_synonym py_dict = "(string \<times> string) list"

definition quote :: string where
  "quote = [CHR 0x27]"

definition backslash :: char where
  "backslash = CHR 0x5C"

fun join :: "string \<Rightarrow> string list \<Rightarrow> string" where
  "join sep [] = []"
| "join sep [x] = x"
| "join sep (x # y # ys) = x @ sep @ join sep (y # ys)"

text \<open>\<^verbatim>\<open>{**self.default_values, **pipeline.vars}\<close>: the items of the first dict, then
  each item of the second, which replaces the value of a key already there (the key keeps
  its place) and is appended otherwise.\<close>

definition dict_merge :: "py_dict \<Rightarrow> py_dict \<Rightarrow> py_dict" where
  "dict_merge defaults opts = fold (\<lambda>kv acc. AList.update (fst kv) (snd kv) acc) opts defaults"

definition dict_keys :: "py_dict \<Rightarrow> string list" where
  "dict_keys d = map fst d"

subsection \<open>repr of a string and of a list of strings\<close>

definition hex_digit :: "nat \<Rightarrow> char" where
  "hex_digit n = ''0123456789abcdef'' ! (n mod 16)"

definition py_printable :: "char \<Rightarrow> bool" where
  "py_printable c =
     (let n = (of_char c :: nat) in (32 \<le> n \<and> n < 127) \<or> (161 \<le> n \<and> n \<noteq> 173))"

definition repr_char :: "char \<Rightarrow> char \<Rightarrow> string" where
  "repr_char q c =
     (if c = q \<or> c = backslash then [backslash, c]
      else if c = CHR 0x09 then [backslash, CHR ''t'']
      else if c = CHR 0x0A then [backslash, CHR ''n'']
      else if c = CHR 0x0D then [backslash, CHR ''r'']
      else if py_printable c then [c]
      else [backslash, CHR ''x'', hex_digit (of_char c div 16), hex_digit (of_char c mod 16)])"

definition py_repr :: "string \<Rightarrow> string" where
  "py_repr s =
     (let q = (if CHR 0x27 \<in> set s \<and> CHR 0x22 \<notin> set s then CHR 0x22 else CHR 0x27)
      in q # concat (map (repr_char q) s) @ [q])"

definition py_repr_list :: "string list \<Rightarrow> string" where
  "py_repr_list xs = ''['' @ join '', '' (map py_repr xs) @ '']''"

subsection \<open>str.format_map\<close>

text \<open>
  \<^verbatim>\<open>template.format_map(values)\<close> reads the template from left to right and raises at
  the first failure. The model covers literal text, the doubled braces \<^verbatim>\<open>{{\<close> and
  \<^verbatim>\<open>}}\<close>, a single \<^verbatim>\<open>}\<close> and a final single \<^verbatim>\<open>{\<close> (both a
  \<^verbatim>\<open>ValueError\<close>), and a replacement field \<^verbatim>\<open>{name}\<close> whose name is plain:
  not empty, free of \<^verbatim>\<open>{ } [ ] : ! .\<close> and not starting with a digit. Such a field is
  looked up in the mapping (\<^verbatim>\<open>KeyError(name)\<close> when absent) and its value, a string, is
  inserted as it is.

  Every other replacement field (positional or numeric names, attribute and index access,
  conversions, format specifications, a field that is never closed) is left to the
  parameter \<open>ext\<close> of \<open>format_map\<close>: it receives the rest of the template from the opening
  brace of that field and the mapping, and stands for the result of
  \<^verbatim>\<open>format_map\<close> on that rest. All theorems hold for every \<open>ext\<close>.
\<close>

datatype piece = Lit char | Field string | Malformed py_error | Other string

definition single_close :: py_error where
  "single_close = ValueError (''Single '' @ quote @ ''}'' @ quote @ '' encountered in format string'')"

definition single_open :: py_error where
  "single_open = ValueError (''Single '' @ quote @ ''{'' @ quote @ '' encountered in format string'')"

definition name_char :: "char \<Rightarrow> bool" where
  "name_char c = (c \<notin> set ''{}[]:!.'')"

definition is_digit :: "char \<Rightarrow> bool" where
  "is_digit c = (c \<in> set ''0123456789'')"

fun plain_name :: "string \<Rightarrow> bool" where
  "plain_name [] = False"
| "plain_name (c # cs) = (\<not> is_digit c)"

text \<open>The name of a replacement field up to its closing brace, and the text after it.\<close>

fun field_name :: "string \<Rightarrow> (string \<times> string) option" where
  "field_name [] = None"
| "field_name (c # cs) =
     (if c = CHR ''}'' then Some ([], cs)
      else if name_char c then
        (case field_name cs of None \<Rightarrow> None | Some (n, r) \<Rightarrow> Some (c # n, r))
      else None)"

lemma field_name_shorter: "field_name cs = Some (n, r) \<Longrightarrow> length r < length cs"
  by (induction cs arbitrary: n r) (auto split: if_splits option.splits)

function tokens :: "string \<Rightarrow> piece list" where
  "tokens [] = []"
| "tokens (c # cs) =
     (if c = CHR ''}'' then
        (case cs of
           [] \<Rightarrow> [Malformed single_close]
         | d # ds \<Rightarrow> if d = CHR ''}'' then Lit c # tokens ds else [Malformed single_close])
      else if c = CHR ''{'' then
        (case cs of
           [] \<Rightarrow> [Malformed single_open]
         | d # ds \<Rightarrow>
             if d = CHR ''{'' then Lit c # tokens ds
             else (case field_name cs of
                     None \<Rightarrow> [Other (c # cs)]
                   | Some (n, r) \<Rightarrow> if plain_name n then Field n # tokens r else [Other (c # cs)]))
      else Lit c # tokens cs)"
  by pat_completeness auto
termination
  by (relation "measure length") (auto dest!: field_name_shorter simp del: field_name.simps)

fun render :: "(string \<Rightarrow> py_dict \<Rightarrow> py_error + string) \<Rightarrow> py_dict \<Rightarrow> piece list \<Rightarrow> py_error + string" where
  "render ext vals [] = Inr []"
| "render ext vals (Lit c # ps) =
     (case render ext vals ps of Inl e \<Rightarrow> Inl e | Inr s \<Rightarrow> Inr (c # s))"
| "render ext vals (Field n # ps) =
     (case map_of vals n of
        None \<Rightarrow> Inl (KeyError n)
      | Some v \<Rightarrow> (case render ext vals ps of Inl e \<Rightarrow> Inl e | Inr s \<Rightarrow> Inr (v @ s)))"
| "render ext vals (Malformed e # ps) = Inl e"
| "render ext vals (Other rest # ps) = ext rest vals"

definition format_map :: "(string \<Rightarrow> py_dict \<Rightarrow> py_error + string) \<Rightarrow> string \<Rightarrow> py_dict \<Rightarrow> py_error + string" where
  "format_map ext template vals = render ext vals (tokens template)"

text \<open>\<^verbatim>\<open>s.replace("-", "_")\<close>: both strings are one character long.\<close>

definition replace_char :: "char \<Rightarrow> char \<Rightarrow> string \<Rightarrow> string" where
  "replace_char old new s = map (\<lambda>c. if c = old then new else c) s"

section \<open>The transformations of sigma/pipelines/athena/athena.py\<close>

text \<open>
  The pipeline injected into a transformation (\<^verbatim>\<open>self._pipeline\<close>) carries the backend
  options (\<^verbatim>\<open>vars\<close>) and the run-scoped state. A call of \<^verbatim>\<open>apply\<close> returns the
  exception it raised, if any, and the pipeline as the call left it. The bookkeeping of
  the base class on the rule (\<^verbatim>\<open>super().apply(rule)\<close> of the library) does not touch
  the pipeline and is not part of the model.
\<close>

record pipeline =
  vars :: py_dict
  state :: "string \<rightharpoonup> string"

record transformation =
  key :: string
  template :: string
  default_values :: py_dict

definition missing_key_message :: "string \<Rightarrow> string \<Rightarrow> string list \<Rightarrow> string" where
  "missing_key_message missing_key k ks =
     ''Missing key '' @ quote @ missing_key @ quote @ '' in template substitution for ''
       @ quote @ k @ quote @ ''. ''
     @ ''Available keys: '' @ py_repr_list ks @ ''. ''
     @ ''You likely need to set the key '' @ quote @ missing_key @ quote @ '' via ''
       @ quote @ ''backend options'' @ quote @ ''.''"

text \<open>An \<open>ext\<close> for the examples: every replacement field that is not a plain name fails.\<close>

definition unsupported_field :: "string \<Rightarrow> py_dict \<Rightarrow> py_error + string" where
  "unsupported_field rest vals = Inl (OtherError [])"

definition SetStateFromBackendOptionsTransformation_apply ::
  "(string \<Rightarrow> py_dict \<Rightarrow> py_error + string) \<Rightarrow> transformation \<Rightarrow> pipeline \<Rightarrow> py_error option \<times> pipeline" where
  "SetStateFromBackendOptionsTransformation_apply ext t p =
     (let values = dict_merge (default_values t) (vars p) in
      case format_map ext (template t) values of
        Inr s \<Rightarrow> (None, p\<lparr>state := (state p)(key t \<mapsto> s)\<rparr>)
      | Inl (KeyError missing_key) \<Rightarrow>
          (Some (KeyError (missing_key_message missing_key (key t) (dict_keys values))), p)
      | Inl e \<Rightarrow> (Some e, p))"

definition SetStateFromBackendOptionsTransformationDashToUnderscore_apply ::
  "(string \<Rightarrow> py_dict \<Rightarrow> py_error + string) \<Rightarrow> transformation \<Rightarrow> pipeline \<Rightarrow> py_error option \<times> pipeline" where
  "SetStateFromBackendOptionsTransformationDashToUnderscore_apply ext t p =
     (case SetStateFromBackendOptionsTransformation_apply ext t p of
        (Some e, p') \<Rightarrow> (Some e, p')
      | (None, p') \<Rightarrow>
          (case state p' (key t) of
             None \<Rightarrow> (Some (KeyError (key t)), p')
           | Some v \<Rightarrow> (None, p'\<lparr>state := (state p')(key t \<mapsto> replace_char CHR ''-'' CHR ''_'' v)\<rparr>)))"

text \<open>A template is plain when it holds nothing but literal text, doubled braces and
  replacement fields with plain names; its placeholders are the names of these fields.\<close>

definition plain_piece :: "piece \<Rightarrow> bool" where
  "plain_piece q = (case q of Lit c \<Rightarrow> True | Field n \<Rightarrow> True | Malformed e \<Rightarrow> False | Other r \<Rightarrow> False)"

definition plain_template :: "string \<Rightarrow> bool" where
  "plain_template s = list_all plain_piece (tokens s)"

definition placeholders :: "string \<Rightarrow> string list" where
  "placeholders s = concat (map (\<lambda>q. case q of Field n \<Rightarrow> [n] | _ \<Rightarrow> []) (tokens s))"


section \<open>The pipeline athena_pipeline_security_lake_table_name\<close>

text \<open>
  A \<^verbatim>\<open>LogsourceCondition\<close>, a \<^verbatim>\<open>ProcessingItem\<close> and a \<^verbatim>\<open>ProcessingPipeline\<close>
  with the fields the function sets. The list \<open>sources\<close> is the local list of the
  function; every item carries a dash-to-underscore transformation.
\<close>

record logsource_condition =
  product :: string
  service :: string

record processing_item =
  item_identifier :: string
  transformation :: transformation
  rule_conditions :: "logsource_condition list"

record processing_pipeline =
  name :: string
  allowed_backends :: "string set"
  priority :: nat
  items :: "processing_item list"

definition sources :: "(logsource_condition \<times> string) list" where
  "sources =
    [(\<lparr>product = ''aws'', service = ''cloudtrail''\<rparr>,
      ''amazon_security_lake_table_{backend_aws_table_region}_cloud_trail_mgmt_{backend_aws_table_version}''),
     (\<lparr>product = ''aws'', service = ''cloudtrail_s3''\<rparr>,
      ''amazon_security_lake_table_{backend_aws_table_region}_s3_data_{backend_aws_table_version}''),
     (\<lparr>product = ''aws'', service = ''cloudtrail_lambda''\<rparr>,
      ''amazon_security_lake_table_{backend_aws_table_region}_lambda_execution_{backend_aws_table_version}''),
     (\<lparr>product = ''aws'', service = ''route53''\<rparr>,
      ''amazon_security_lake_table_{backend_aws_table_region}_route53_{backend_aws_table_version}''),
     (\<lparr>product = ''aws'', service = ''security_hub''\<rparr>,
      ''amazon_security_lake_table_{backend_aws_table_region}_sh_findings_{backend_aws_table_version}''),
     (\<lparr>product = ''aws'', service = ''vpc_flow_logs''\<rparr>,
      ''amazon_security_lake_table_{backend_aws_table_region}_vpc_flow_{backend_aws_table_version}''),
     (\<lparr>product = ''aws'', service = ''waf''\<rparr>,
      ''amazon_security_lake_table_{backend_aws_table_region}_waf_{backend_aws_table_version}''),
     (\<lparr>product = ''aws'', service = ''eks_audit''\<rparr>,
      ''amazon_security_lake_table_{backend_aws_table_region}_eks_audit_{backend_aws_table_version}'')]"

definition athena_pipeline_security_lake_table_name :: processing_pipeline where
  "athena_pipeline_security_lake_table_name =
    \<lparr>name = ''athena map source to table name pipeline'',
     allowed_backends = {''athena''},
     priority = 20,
     items = map (\<lambda>(condition, table).
                \<lparr>item_identifier = ''table_'' @ table,
                 transformation =
                   \<lparr>key = ''table_name'', template = table,
                    default_values = [(''backend_aws_table_version'', ''2_0'')]\<rparr>,
                 rule_conditions = [condition]\<rparr>) sources\<rparr>"

text \<open>Text without braces: \<^verbatim>\<open>format_map\<close> copies it.\<close>

definition brace_free :: "string \<Rightarrow> bool" where
  "brace_free s = list_all (\<lambda>c. c \<noteq> CHR ''{'' \<and> c \<noteq> CHR ''}'') s"

section \<open>The condition-to-predicate translator\<close>

text \<open>
  The module \<^verbatim>\<open>sigma.backends.athena\<close> (the class \<^verbatim>\<open>athenaBackend\<close>) is not among the
  source files; only \<^verbatim>\<open>tests/test_backend_athena_mixed_modifiers.py\<close> calls it. The
  definitions of this section are therefore written from the specification (sections 3, 4.1 to
  4.4 and the end-to-end examples of section 8), each under a note that says which sentences
  it follows. They are checked below against the outputs the tests assert.
\<close>

subsection \<open>Modifier Resolver\<close>

text \<open>Modelled from the spec: the Modifier Stack of section 3, missing with the backend
  module. The plain condition is the empty stack.\<close>

datatype modifier = Contains | Startswith | Endswith | Cased | Fieldref | Re

text \<open>Modelled from the spec: the \<^verbatim>\<open>ComparisonShape\<close> tag of section 4.2.\<close>

datatype comparison_shape = EQUALITY | CONTAINS | STARTSWITH | ENDSWITH | FIELD_EQUALITY | REGEX

text \<open>Modelled from the spec: the errors of sections 4.2 and 7. \<open>ModifierValueError\<close> is the
  \<^verbatim>\<open>ValueError\<close> of rule 1 (the tests expect \<^verbatim>\<open>SigmaValueError\<close>), \<open>NotSupportedError\<close> the
  error of rule 2 (the tests expect Python's \<^verbatim>\<open>NotImplementedError\<close> with the same message),
  \<open>UnsupportedCombination\<close> the error of section 7 for several shape-selecting modifiers at
  once, whose message the spec does not give.\<close>

datatype translator_error =
  ModifierValueError string | NotSupportedError string | UnsupportedCombination

text \<open>Modelled from the spec: the Modifier Resolver of section 4.2, missing with the backend
  module. The four rules are tried in the order the spec gives them; \<open>case_sensitive\<close> is
  true iff \<^verbatim>\<open>cased\<close> is present.\<close>

definition resolve_modifiers :: "modifier list \<Rightarrow> translator_error + comparison_shape \<times> bool" where
  "resolve_modifiers ms =
     (let case_sensitive = (Cased \<in> set ms);
          c = (Contains \<in> set ms); s = (Startswith \<in> set ms); e = (Endswith \<in> set ms)
      in if Re \<in> set ms then
           (if list_all (\<lambda>m. m = Re) ms then Inr (REGEX, case_sensitive)
            else Inl (ModifierValueError
                        ''Regular expression modifier only applicable to unmodified values''))
         else if Fieldref \<in> set ms then
           (if Cased \<in> set ms
            then Inl (NotSupportedError
                        ''cased is not support with fieldref for this backend at present'')
            else Inr (FIELD_EQUALITY, case_sensitive))
         else if c \<and> \<not> s \<and> \<not> e then Inr (CONTAINS, case_sensitive)
         else if \<not> c \<and> s \<and> \<not> e then Inr (STARTSWITH, case_sensitive)
         else if \<not> c \<and> \<not> s \<and> e then Inr (ENDSWITH, case_sensitive)
         else if \<not> c \<and> \<not> s \<and> \<not> e then Inr (EQUALITY, case_sensitive)
         else Inl UnsupportedCombination)"

subsection \<open>Wildcard/Literal Escaper\<close>

text \<open>Modelled from the spec: the first step of the Escaper of section 4.3, missing with the
  backend module: each \<^verbatim>\<open>%\<close>, \<^verbatim>\<open>_\<close> and backslash of the literal is prefixed with a
  backslash.\<close>

definition like_metachar :: "char \<Rightarrow> bool" where
  "like_metachar c = (c = CHR ''%'' \<or> c = CHR ''_'' \<or> c = backslash)"

definition escape_like :: "string \<Rightarrow> string" where
  "escape_like lit = concat (map (\<lambda>c. if like_metachar c then [backslash, c] else [c]) lit)"

definition pattern_shape :: "comparison_shape \<Rightarrow> bool" where
  "pattern_shape shape = (shape = CONTAINS \<or> shape = STARTSWITH \<or> shape = ENDSWITH)"

text \<open>Modelled from the spec: the wildcard translation of section 4.3, missing with the
  backend module, applied to the escaped literal. For \<^verbatim>\<open>startswith\<close> and \<^verbatim>\<open>endswith\<close> the
  spec translates \<^verbatim>\<open>?\<close> to \<^verbatim>\<open>_\<close> and \<^verbatim>\<open>*\<close> to \<^verbatim>\<open>%\<close>. For \<^verbatim>\<open>contains\<close> the spec speaks
  twice: the sentence of section 4.3 keeps \<^verbatim>\<open>*\<close> as it is, end-to-end example 2 of section 8
  turns \<^verbatim>\<open>val*a\<close> into \<^verbatim>\<open>%val%a%\<close>. The definition follows the example, which is the output
  that \<^verbatim>\<open>test_athena_contains_list_with_literal_star_and_question\<close> asserts. Plain equality
  translates nothing.\<close>

definition translate_wildcards :: "comparison_shape \<Rightarrow> string \<Rightarrow> string" where
  "translate_wildcards shape s =
     (if pattern_shape shape
      then map (\<lambda>c. if c = CHR ''?'' then CHR ''_'' else if c = CHR ''*'' then CHR ''%'' else c) s
      else s)"

text \<open>Modelled from the spec: the lower-casing of section 4.3 (\<open>the literal is additionally
  lower-cased before bracketing\<close>). The capital letters A to Z are mapped; the model leaves
  every other character as it is.\<close>

definition lower_char :: "char \<Rightarrow> char" where
  "lower_char c =
     (case map_of (zip ''ABCDEFGHIJKLMNOPQRSTUVWXYZ'' ''abcdefghijklmnopqrstuvwxyz'') c of
        None \<Rightarrow> c | Some l \<Rightarrow> l)"

definition lower :: "string \<Rightarrow> string" where
  "lower s = map lower_char s"

definition pattern_body :: "comparison_shape \<Rightarrow> bool \<Rightarrow> string \<Rightarrow> string" where
  "pattern_body shape case_sensitive lit =
     (let translated = translate_wildcards shape (escape_like lit)
      in if case_sensitive then translated else lower translated)"

text \<open>Modelled from the spec: the final bracketing of section 4.3.\<close>

definition bracket :: "comparison_shape \<Rightarrow> string \<Rightarrow> string" where
  "bracket shape s =
     (if shape = CONTAINS then ''%'' @ s @ ''%''
      else if shape = STARTSWITH then s @ ''%''
      else if shape = ENDSWITH then ''%'' @ s
      else s)"

text \<open>Modelled from the spec: the Wildcard/Literal Escaper of section 4.3 as a whole: escape,
  translate the wildcards, lower-case unless case-sensitive, bracket.\<close>

definition escaper :: "comparison_shape \<Rightarrow> bool \<Rightarrow> string \<Rightarrow> string" where
  "escaper shape case_sensitive lit = bracket shape (pattern_body shape case_sensitive lit)"

subsection \<open>Identifier Resolver\<close>

text \<open>Modelled from the spec: the Field Reference of section 3, missing with the backend
  module.\<close>

record field_reference =
  ref_name :: string
  is_unmapped :: bool

definition dquote :: string where
  "dquote = [CHR 0x22]"

fun add_char :: "char \<Rightarrow> string list \<Rightarrow> string list" where
  "add_char c [] = [[c]]"
| "add_char c (s # ss) = (c # s) # ss"

text \<open>Modelled from the spec: the splitting of section 4.1, missing with the backend module:
  the name is split on the dots that no backslash precedes, and a backslash followed by a dot
  is a dot inside the segment.\<close>

fun split_dots :: "string \<Rightarrow> string list" where
  "split_dots [] = [[]]"
| "split_dots (c # cs) =
     (if c = backslash \<and> take 1 cs = ''.'' then add_char CHR ''.'' (split_dots (drop 1 cs))
      else if c = CHR ''.'' then [] # split_dots cs
      else add_char c (split_dots cs))"

text \<open>Modelled from the spec: section 3 writes a field name as its segments, separated by
  dots, with a backslash before each dot that belongs to a segment.\<close>

definition escape_dots :: "string \<Rightarrow> string" where
  "escape_dots seg = concat (map (\<lambda>c. if c = CHR ''.'' then [backslash, c] else [c]) seg)"

definition dotted_name :: "string list \<Rightarrow> string" where
  "dotted_name segs = join ''.'' (map escape_dots segs)"

text \<open>Modelled from the spec: section 4.1 quotes a name that \<open>contains whitespace or other
  characters illegal in a bare identifier\<close>. The spec does not list the legal characters; the
  model takes letters, digits and the underscore, which the examples agree with
  (\<^verbatim>\<open>field name\<close> and \<^verbatim>\<open>user.uid\<close> are quoted, \<^verbatim>\<open>account_id\<close> is not).\<close>

definition ident_char :: "char \<Rightarrow> bool" where
  "ident_char c =
     (c \<in> set ''abcdefghijklmnopqrstuvwxyzABCDEFGHIJKLMNOPQRSTUVWXYZ0123456789_'')"

definition quote_segment :: "string \<Rightarrow> string" where
  "quote_segment seg = (if list_all ident_char seg then seg else dquote @ seg @ dquote)"

text \<open>Modelled from the spec: the Identifier Resolver of section 4.1, missing with the backend
  module. An unmapped field is an accessor into its container (the first segment) with the
  remaining path joined by dots inside a string literal; a mapped field is its segments,
  each quoted when it needs it, joined by dots.\<close>

definition resolve_identifier :: "field_reference \<Rightarrow> string" where
  "resolve_identifier fr =
     (case split_dots (ref_name fr) of
        [] \<Rightarrow> []
      | container # path \<Rightarrow>
          if is_unmapped fr
          then ''element_at('' @ container @ '', '' @ quote @ join ''.'' path @ quote @ '')''
          else join ''.'' (map quote_segment (container # path)))"

subsection \<open>Predicate Assembler\<close>

definition sql_string :: "string \<Rightarrow> string" where
  "sql_string s = quote @ s @ quote"

definition escape_clause :: string where
  "escape_clause = '' ESCAPE '' @ quote @ [backslash] @ quote"

text \<open>Modelled from the spec: the Predicate Assembler of section 4.4 for one value, missing
  with the backend module. The regular-expression predicate is out of the spec's scope and
  is the parameter \<open>regex\<close>.\<close>

definition assemble ::
  "(string \<Rightarrow> string \<Rightarrow> string) \<Rightarrow> comparison_shape \<Rightarrow> bool \<Rightarrow> string \<Rightarrow> string \<Rightarrow> string" where
  "assemble regex shape case_sensitive ident v =
     (if shape = REGEX then regex ident v
      else if shape = FIELD_EQUALITY then ''LOWER('' @ ident @ '') = LOWER('' @ v @ '')''
      else if shape = EQUALITY then
        (if case_sensitive then ident @ '' = '' @ sql_string (escaper shape case_sensitive v)
         else ''LOWER('' @ ident @ '') = LOWER('' @
                sql_string (escaper shape case_sensitive v) @ '')'')
      else (if case_sensitive then ident else ''LOWER('' @ ident @ '')'')
             @ '' LIKE '' @ sql_string (escaper shape case_sensitive v) @ escape_clause)"

text \<open>Modelled from the spec: the Value and the Leaf Condition of section 3. Under
  \<^verbatim>\<open>fieldref\<close> the value is another field reference, which the Identifier Resolver turns
  into the text of the right-hand side.\<close>

datatype sigma_value = Literal string | Ref field_reference

fun value_text :: "sigma_value \<Rightarrow> string" where
  "value_text (Literal s) = s"
| "value_text (Ref fr) = resolve_identifier fr"

record leaf_condition =
  field :: field_reference
  modifier_stack :: "modifier list"
  condition_values :: "sigma_value list"
  negated :: bool

text \<open>Modelled from the spec: the translator of one leaf condition (section 2, control flow,
  and section 4.4): the identifier is resolved once, each value gives one sub-predicate, the
  sub-predicates are joined with \<^verbatim>\<open> OR \<close>, and a negation is one \<^verbatim>\<open>NOT \<close> in front of the
  whole, which is put in parentheses when it joins several sub-predicates. An error of the
  Modifier Resolver is the result and no expression is produced.\<close>

definition compile_leaf ::
  "(string \<Rightarrow> string \<Rightarrow> string) \<Rightarrow> leaf_condition \<Rightarrow> translator_error + string" where
  "compile_leaf regex lc =
     (case resolve_modifiers (modifier_stack lc) of
        Inl e \<Rightarrow> Inl e
      | Inr (shape, case_sensitive) \<Rightarrow>
          (let ident = resolve_identifier (field lc);
               subs = map (\<lambda>v. assemble regex shape case_sensitive ident (value_text v))
                          (condition_values lc);
               joined = join '' OR '' subs
           in Inr (if negated lc
                   then (if length subs > 1 then ''NOT ('' @ joined @ '')'' else ''NOT '' @ joined)
                   else joined)))"

text \<open>A regular-expression predicate for the closed examples, none of which has the
  \<^verbatim>\<open>re\<close> modifier alone.\<close>

definition unspecified_regex :: "string \<Rightarrow> string \<Rightarrow> string" where
  "unspecified_regex ident v = []"

section \<open>Properties of the pipeline helper\<close>

subsection \<open>Merging, lexing and rendering\<close>

lemma map_of_fold_update:
  "map_of (fold (\<lambda>kv acc. AList.update (fst kv) (snd kv) acc) opts d) k =
     (case map_of (rev opts) k of Some v \<Rightarrow> Some v | None \<Rightarrow> map_of d k)"
  by (induction opts arbitrary: d) (auto simp: update_conv' map_add_def split: option.splits)

lemma map_of_rev_distinct: "distinct (map fst xs) \<Longrightarrow> map_of (rev xs) = map_of xs"
  by (induction xs) (force simp: map_add_def fun_eq_iff split: option.splits dest: map_of_SomeD)+

lemma map_of_dict_merge:
  "distinct (map fst opts) \<Longrightarrow>
   map_of (dict_merge d opts) k = (case map_of opts k of Some v \<Rightarrow> Some v | None \<Rightarrow> map_of d k)"
  by (simp add: dict_merge_def map_of_fold_update map_of_rev_distinct)

lemma field_name_append:
  "field_name cs = Some (n, r) \<Longrightarrow> field_name (cs @ rest) = Some (n, r @ rest)"
  by (induction cs arbitrary: n r) (auto split: if_splits option.splits)

lemma tokens_append:
  "plain_template pre \<Longrightarrow> tokens (pre @ rest) = tokens pre @ tokens rest"
proof (induction pre rule: tokens.induct)
  case 1
  then show ?case by simp
next
  case (2 c cs)
  show ?case
  proof (cases cs)
    case Nil
    with 2 show ?thesis
      by (auto simp: plain_template_def plain_piece_def)
  next
    case (Cons d ds)
    show ?thesis
    proof (cases "c = CHR ''{'' \<and> d \<noteq> CHR ''{''")
      case True
      with 2(5) Cons obtain n r where fn: "field_name cs = Some (n, r)" and pn: "plain_name n"
        by (auto simp: plain_template_def plain_piece_def split: option.splits if_splits simp del: field_name.simps)
      from 2(5) True Cons fn pn have "plain_template r"
        by (auto simp: plain_template_def simp del: field_name.simps)
      with 2(3)[OF _ _ Cons _ fn _ pn] True have ih: "tokens (r @ rest) = tokens r @ tokens rest"
        by auto
      from fn have fn': "field_name (cs @ rest) = Some (n, r @ rest)"
        by (rule field_name_append)
      from True Cons fn fn' pn ih show ?thesis
        by (simp del: field_name.simps)
    next
      case False
      with 2 Cons show ?thesis
        by (auto simp: plain_template_def plain_piece_def simp del: field_name.simps split: if_splits)
    qed
  qed
qed

lemma field_name_plain:
  "list_all name_char k \<Longrightarrow> field_name (k @ CHR ''}'' # post) = Some (k, post)"
  by (induction k) (auto simp: name_char_def)

lemma tokens_field:
  assumes "plain_name k" and "list_all name_char k"
  shows "tokens (''{'' @ k @ ''}'' @ post) = Field k # tokens post"
proof -
  from assms(1) obtain a l where k: "k = a # l"
    by (cases k) auto
  from assms(2) have fn: "field_name (k @ CHR ''}'' # post) = Some (k, post)"
    by (rule field_name_plain)
  from assms(2) k have "a \<noteq> CHR ''{''"
    by (auto simp: name_char_def)
  with fn assms(1) show ?thesis
    unfolding k by (simp del: field_name.simps)
qed

lemma render_plain_present:
  "list_all plain_piece ps \<Longrightarrow>
   set (concat (map (\<lambda>q. case q of Field n \<Rightarrow> [n] | _ \<Rightarrow> []) ps)) \<subseteq> set (dict_keys vals) \<Longrightarrow>
   render ext vals (ps @ qs) =
     (case render ext vals ps of Inl e \<Rightarrow> Inl e
      | Inr s \<Rightarrow> (case render ext vals qs of Inl e \<Rightarrow> Inl e | Inr r \<Rightarrow> Inr (s @ r)))
   \<and> (\<exists>s. render ext vals ps = Inr s)"
proof (induction ps)
  case Nil
  then show ?case by (auto split: sum.splits)
next
  case (Cons q ps)
  then show ?case
    by (cases q) (auto simp: plain_piece_def dict_keys_def map_of_eq_None_iff split: sum.splits option.splits)
qed


lemma format_map_missing:
  assumes "plain_template pre"
    and "set (placeholders pre) \<subseteq> set (dict_keys vals)"
    and "plain_name k" and "list_all name_char k"
    and "k \<notin> set (dict_keys vals)"
  shows "format_map ext (pre @ ''{'' @ k @ ''}'' @ post) vals = Inl (KeyError k)"
proof -
  have t: "tokens (pre @ ''{'' @ k @ ''}'' @ post) = tokens pre @ Field k # tokens post"
    using tokens_append [OF assms(1)] tokens_field [OF assms(3,4)] by simp
  from assms(5) have none: "map_of vals k = None"
    by (simp add: dict_keys_def map_of_eq_None_iff)
  from render_plain_present [of "tokens pre" vals ext "Field k # tokens post"] assms(1,2)
  obtain s where "render ext vals (tokens pre) = Inr s"
    and "render ext vals (tokens pre @ Field k # tokens post) =
      (case render ext vals (Field k # tokens post) of Inl e \<Rightarrow> Inl e | Inr r \<Rightarrow> Inr (s @ r))"
    by (auto simp: plain_template_def placeholders_def)
  with none t show ?thesis
    by (simp add: format_map_def)
qed

lemma apply_KeyError:
  assumes "format_map ext (template t) (dict_merge (default_values t) (vars p)) = Inl (KeyError k)"
  shows "SetStateFromBackendOptionsTransformation_apply ext t p =
    (Some (KeyError (missing_key_message k (key t)
       (dict_keys (dict_merge (default_values t) (vars p))))), p)"
  using assms by (simp add: SetStateFromBackendOptionsTransformation_apply_def)

lemma apply_dash_KeyError:
  assumes "format_map ext (template t) (dict_merge (default_values t) (vars p)) = Inl (KeyError k)"
  shows "SetStateFromBackendOptionsTransformationDashToUnderscore_apply ext t p =
    (Some (KeyError (missing_key_message k (key t)
       (dict_keys (dict_merge (default_values t) (vars p))))), p)"
  using apply_KeyError [OF assms]
  by (simp add: SetStateFromBackendOptionsTransformationDashToUnderscore_apply_def)

lemma apply_success:
  assumes "format_map ext (template t) (dict_merge (default_values t) (vars p)) = Inr s"
  shows "SetStateFromBackendOptionsTransformation_apply ext t p =
    (None, p\<lparr>state := (state p)(key t \<mapsto> s)\<rparr>)"
  using assms by (simp add: SetStateFromBackendOptionsTransformation_apply_def)

lemma apply_dash_success:
  assumes "format_map ext (template t) (dict_merge (default_values t) (vars p)) = Inr s"
  shows "SetStateFromBackendOptionsTransformationDashToUnderscore_apply ext t p =
    (None, p\<lparr>state := (state p)(key t \<mapsto> replace_char CHR ''-'' CHR ''_'' s)\<rparr>)"
  using apply_success [OF assms]
  by (simp add: SetStateFromBackendOptionsTransformationDashToUnderscore_apply_def)

lemma apply_vars: "vars (snd (SetStateFromBackendOptionsTransformation_apply ext t p)) = vars p"
  by (simp add: SetStateFromBackendOptionsTransformation_apply_def Let_def
           split: sum.splits py_error.splits)

lemma apply_dash_vars:
  "vars (snd (SetStateFromBackendOptionsTransformationDashToUnderscore_apply ext t p)) = vars p"
  using apply_vars [of ext t p]
  by (auto simp: SetStateFromBackendOptionsTransformationDashToUnderscore_apply_def
           split: prod.splits option.splits)


subsection \<open>The claims about the transformations\<close>




text \<open>
  Claim C7. \<^verbatim>\<open>apply\<close> substitutes the template from one merged mapping: a key of the
  options has the value the options give it, also when the defaults have the key, and any
  other key has the value of the defaults. The options are a dict, so their keys are
  distinct.
\<close>

theorem options_override_defaults:
  assumes "distinct (map fst (vars p))"
  shows "(\<forall>k v. map_of (vars p) k = Some v \<longrightarrow>
            map_of (dict_merge (default_values t) (vars p)) k = Some v)
   \<and> (\<forall>k. map_of (vars p) k = None \<longrightarrow>
            map_of (dict_merge (default_values t) (vars p)) k = map_of (default_values t) k)
   \<and> SetStateFromBackendOptionsTransformation_apply ext t p =
       (case format_map ext (template t) (dict_merge (default_values t) (vars p)) of
          Inr s \<Rightarrow> (None, p\<lparr>state := (state p)(key t \<mapsto> s)\<rparr>)
        | Inl (KeyError missing_key) \<Rightarrow>
            (Some (KeyError (missing_key_message missing_key (key t)
               (dict_keys (dict_merge (default_values t) (vars p))))), p)
        | Inl e \<Rightarrow> (Some e, p))"
proof (intro conjI allI impI)
  show "SetStateFromBackendOptionsTransformation_apply ext t p =
       (case format_map ext (template t) (dict_merge (default_values t) (vars p)) of
          Inr s \<Rightarrow> (None, p\<lparr>state := (state p)(key t \<mapsto> s)\<rparr>)
        | Inl (KeyError missing_key) \<Rightarrow>
            (Some (KeyError (missing_key_message missing_key (key t)
               (dict_keys (dict_merge (default_values t) (vars p))))), p)
        | Inl e \<Rightarrow> (Some e, p))"
    by (simp add: SetStateFromBackendOptionsTransformation_apply_def Let_def)
qed (simp_all add: map_of_dict_merge [OF assms])

theorem options_override_defaults_witness:
  "distinct (map fst [(''v'', ''3_0'')])
   \<and> map_of (dict_merge [(''v'', ''2_0''), (''w'', ''x'')] [(''v'', ''3_0'')]) ''v'' = Some ''3_0''
   \<and> map_of (dict_merge [(''v'', ''2_0''), (''w'', ''x'')] [(''v'', ''3_0'')]) ''w'' = Some ''x''
   \<and> SetStateFromBackendOptionsTransformation_apply (\<lambda>rest vals. Inl (OtherError []))
        \<lparr>key = ''table_name'', template = ''t_{v}_{w}'',
         default_values = [(''v'', ''2_0''), (''w'', ''x'')]\<rparr>
        \<lparr>vars = [(''v'', ''3_0'')], state = Map.empty\<rparr>
      = (None, \<lparr>vars = [(''v'', ''3_0'')], state = [''table_name'' \<mapsto> ''t_3_0_x'']\<rparr>)"
proof -
  let ?t = "\<lparr>key = ''table_name'', template = ''t_{v}_{w}'',
             default_values = [(''v'', ''2_0''), (''w'', ''x'')]\<rparr>"
  let ?p = "\<lparr>vars = [(''v'', ''3_0'')], state = (Map.empty :: string \<rightharpoonup> string)\<rparr>"
  have h: "distinct (map fst (vars ?p))"
    by simp
  have m: "dict_merge [(''v'', ''2_0''), (''w'', ''x'')] [(''v'', ''3_0'')]
             = [(''v'', ''3_0''), (''w'', ''x'')]"
    by (simp add: dict_merge_def)
  have f: "format_map (\<lambda>rest vals. Inl (OtherError [])) ''t_{v}_{w}''
             [(''v'', ''3_0''), (''w'', ''x'')] = Inr ''t_3_0_x''"
    by (simp add: format_map_def name_char_def is_digit_def)
  from options_override_defaults [OF h, of ?t "\<lambda>rest vals. Inl (OtherError [])"]
  have "SetStateFromBackendOptionsTransformation_apply (\<lambda>rest vals. Inl (OtherError [])) ?t ?p
      = (None, \<lparr>vars = [(''v'', ''3_0'')], state = [''table_name'' \<mapsto> ''t_3_0_x'']\<rparr>)"
    by (simp add: m f)
  with m show ?thesis
    by simp
qed

text \<open>
  Claim C8. When the substitution succeeds with the string \<open>s\<close>, the dash-to-underscore
  variant leaves under the state key a string of the same length that has \<^verbatim>\<open>_\<close>
  wherever \<open>s\<close> has \<^verbatim>\<open>-\<close> and the character of \<open>s\<close> everywhere else; nothing else
  of the pipeline changes.
\<close>

theorem dash_to_underscore_value:
  assumes "format_map ext (template t) (dict_merge (default_values t) (vars p)) = Inr s"
  shows "\<exists>r. SetStateFromBackendOptionsTransformationDashToUnderscore_apply ext t p =
           (None, p\<lparr>state := (state p)(key t \<mapsto> r)\<rparr>)
         \<and> length r = length s
         \<and> (\<forall>i < length s. r ! i = (if s ! i = CHR ''-'' then CHR ''_'' else s ! i))"
  using apply_dash_success [OF assms]
  by (intro exI [of _ "replace_char CHR ''-'' CHR ''_'' s"]) (simp add: replace_char_def)

theorem dash_to_underscore_value_witness:
  "\<exists>r. SetStateFromBackendOptionsTransformationDashToUnderscore_apply
          (\<lambda>rest vals. Inl (OtherError []))
          \<lparr>key = ''table_name'', template = ''t_{r}'', default_values = []\<rparr>
          \<lparr>vars = [(''r'', ''eu-west-1'')], state = Map.empty\<rparr>
        = (None, \<lparr>vars = [(''r'', ''eu-west-1'')], state = [''table_name'' \<mapsto> r]\<rparr>)
      \<and> length r = length ''t_eu-west-1''
      \<and> (\<forall>i < length ''t_eu-west-1''.
            r ! i = (if ''t_eu-west-1'' ! i = CHR ''-'' then CHR ''_'' else ''t_eu-west-1'' ! i))"
proof -
  have h: "format_map (\<lambda>rest vals. Inl (OtherError []))
      (template \<lparr>key = ''table_name'', template = ''t_{r}'', default_values = []\<rparr>)
      (dict_merge (default_values \<lparr>key = ''table_name'', template = ''t_{r}'', default_values = []\<rparr>)
         (vars \<lparr>vars = [(''r'', ''eu-west-1'')], state = Map.empty\<rparr>)) = Inr ''t_eu-west-1''"
    by (simp add: format_map_def dict_merge_def name_char_def is_digit_def)
  show ?thesis
    using dash_to_underscore_value [OF h] by simp
qed

text \<open>
  Claim C9. A second call with the same transformation leaves the pipeline as the first
  call left it, for the plain variant and for the dash-to-underscore variant, whether the
  substitution succeeds or fails.
\<close>

theorem apply_idempotent:
  "snd (SetStateFromBackendOptionsTransformation_apply ext t
          (snd (SetStateFromBackendOptionsTransformation_apply ext t p)))
     = snd (SetStateFromBackendOptionsTransformation_apply ext t p)
   \<and> snd (SetStateFromBackendOptionsTransformationDashToUnderscore_apply ext t
          (snd (SetStateFromBackendOptionsTransformationDashToUnderscore_apply ext t p)))
     = snd (SetStateFromBackendOptionsTransformationDashToUnderscore_apply ext t p)"
proof
  show "snd (SetStateFromBackendOptionsTransformation_apply ext t
          (snd (SetStateFromBackendOptionsTransformation_apply ext t p)))
     = snd (SetStateFromBackendOptionsTransformation_apply ext t p)"
    by (simp add: SetStateFromBackendOptionsTransformation_apply_def Let_def
             split: sum.splits py_error.splits)
next
  let ?v = "dict_merge (default_values t) (vars p)"
  show "snd (SetStateFromBackendOptionsTransformationDashToUnderscore_apply ext t
          (snd (SetStateFromBackendOptionsTransformationDashToUnderscore_apply ext t p)))
     = snd (SetStateFromBackendOptionsTransformationDashToUnderscore_apply ext t p)"
  proof (cases "format_map ext (template t) ?v")
    case (Inr s)
    let ?p' = "p\<lparr>state := (state p)(key t \<mapsto> replace_char CHR ''-'' CHR ''_'' s)\<rparr>"
    have 1: "SetStateFromBackendOptionsTransformationDashToUnderscore_apply ext t p = (None, ?p')"
      by (rule apply_dash_success [OF Inr])
    have "format_map ext (template t) (dict_merge (default_values t) (vars ?p')) = Inr s"
      using Inr by simp
    from apply_dash_success [OF this]
    have "SetStateFromBackendOptionsTransformationDashToUnderscore_apply ext t ?p' = (None, ?p')"
      by simp
    with 1 show ?thesis by simp
  next
    case (Inl e)
    then have "SetStateFromBackendOptionsTransformation_apply ext t p = (Some (case e of
        KeyError k \<Rightarrow> KeyError (missing_key_message k (key t) (dict_keys ?v)) | _ \<Rightarrow> e), p)"
      by (simp add: SetStateFromBackendOptionsTransformation_apply_def split: py_error.splits)
    then have "snd (SetStateFromBackendOptionsTransformationDashToUnderscore_apply ext t p) = p"
      by (simp add: SetStateFromBackendOptionsTransformationDashToUnderscore_apply_def)
    then show ?thesis by simp
  qed
qed

subsection \<open>The table-name pipeline\<close>

lemma tokens_literal: "brace_free xs \<Longrightarrow> tokens (xs @ rest) = map Lit xs @ tokens rest"
  by (induction xs) (auto simp: brace_free_def)

lemma render_literal:
  "render ext vals (map Lit xs @ ps) =
     (case render ext vals ps of Inl e \<Rightarrow> Inl e | Inr s \<Rightarrow> Inr (xs @ s))"
  by (induction xs) (auto split: sum.splits)

lemma keys_update: "fst ` set (AList.update k v d) = insert k (fst ` set d)"
  unfolding dom_map_of_conv_image_fst [symmetric] by (simp add: update_conv')

lemma set_keys_merge:
  "set (dict_keys (dict_merge d opts)) = set (dict_keys d) \<union> set (dict_keys opts)"
  unfolding dict_merge_def dict_keys_def
  by (induction opts arbitrary: d) (simp_all add: keys_update)

lemma table_tokens:
  assumes "brace_free mid"
  shows "tokens (''amazon_security_lake_table_{backend_aws_table_region}'' @ mid
                  @ ''{backend_aws_table_version}'')
    = map Lit ''amazon_security_lake_table_'' @ Field ''backend_aws_table_region''
        # map Lit mid @ [Field ''backend_aws_table_version'']"
proof -
  have n1: "plain_name ''backend_aws_table_region''" "list_all name_char ''backend_aws_table_region''"
    by (simp_all add: is_digit_def name_char_def)
  have n2: "plain_name ''backend_aws_table_version''" "list_all name_char ''backend_aws_table_version''"
    by (simp_all add: is_digit_def name_char_def)
  have bf: "brace_free ''amazon_security_lake_table_''"
    by (simp add: brace_free_def)
  have "tokens (''amazon_security_lake_table_'' @ (''{'' @ ''backend_aws_table_region'' @ ''}''
           @ (mid @ (''{'' @ ''backend_aws_table_version'' @ ''}'' @ []))))
      = map Lit ''amazon_security_lake_table_'' @ Field ''backend_aws_table_region''
        # map Lit mid @ [Field ''backend_aws_table_version'']"
    unfolding tokens_literal [OF bf] tokens_field [OF n1] tokens_literal [OF assms]
      tokens_field [OF n2] by simp
  then show ?thesis by simp
qed

lemma table_missing_region:
  assumes "brace_free mid" and "''backend_aws_table_region'' \<notin> set (dict_keys vals)"
  shows "format_map ext (''amazon_security_lake_table_{backend_aws_table_region}'' @ mid
            @ ''{backend_aws_table_version}'') vals = Inl (KeyError ''backend_aws_table_region'')"
proof -
  from assms(2) have "map_of vals ''backend_aws_table_region'' = None"
    by (simp add: dict_keys_def map_of_eq_None_iff)
  then show ?thesis
    unfolding format_map_def table_tokens [OF assms(1)] render_literal by simp
qed

lemma table_region_only:
  assumes "brace_free mid"
  shows "format_map ext (''amazon_security_lake_table_{backend_aws_table_region}'' @ mid
            @ ''{backend_aws_table_version}'')
           [(''backend_aws_table_version'', ''2_0''), (''backend_aws_table_region'', r)]
         = Inr (''amazon_security_lake_table_'' @ r @ mid @ ''2_0'')"
  unfolding format_map_def table_tokens [OF assms] render_literal
  by (simp add: render_literal [where ps = "[Field ''backend_aws_table_version'']", simplified])

lemma table_placeholders:
  assumes "brace_free mid"
  shows "plain_template (''amazon_security_lake_table_{backend_aws_table_region}'' @ mid
            @ ''{backend_aws_table_version}'')
       \<and> placeholders (''amazon_security_lake_table_{backend_aws_table_region}'' @ mid
            @ ''{backend_aws_table_version}'')
          = [''backend_aws_table_region'', ''backend_aws_table_version'']"
  unfolding plain_template_def placeholders_def table_tokens [OF assms]
  by (induction mid) (simp_all add: plain_piece_def list_all_iff)

lemma items_transformations:
  "map transformation (items athena_pipeline_security_lake_table_name) =
     map (\<lambda>mid.
        \<lparr>key = ''table_name'',
         template = ''amazon_security_lake_table_{backend_aws_table_region}'' @ mid
            @ ''{backend_aws_table_version}'',
         default_values = [(''backend_aws_table_version'', ''2_0'')]\<rparr>)
      [''_cloud_trail_mgmt_'', ''_s3_data_'', ''_lambda_execution_'', ''_route53_'',
       ''_sh_findings_'', ''_vpc_flow_'', ''_waf_'', ''_eks_audit_'']"
  by (simp add: athena_pipeline_security_lake_table_name_def sources_def)

lemma items_shape:
  assumes "it \<in> set (items athena_pipeline_security_lake_table_name)"
  shows "\<exists>mid. brace_free mid
    \<and> transformation it =
        \<lparr>key = ''table_name'',
         template = ''amazon_security_lake_table_{backend_aws_table_region}'' @ mid
            @ ''{backend_aws_table_version}'',
         default_values = [(''backend_aws_table_version'', ''2_0'')]\<rparr>"
proof -
  let ?mids = "[''_cloud_trail_mgmt_'', ''_s3_data_'', ''_lambda_execution_'', ''_route53_'',
       ''_sh_findings_'', ''_vpc_flow_'', ''_waf_'', ''_eks_audit_'']"
  let ?f = "\<lambda>mid. \<lparr>key = ''table_name'',
         template = ''amazon_security_lake_table_{backend_aws_table_region}'' @ mid
            @ ''{backend_aws_table_version}'',
         default_values = [(''backend_aws_table_version'', ''2_0'')]\<rparr>"
  from assms have "transformation it \<in> set (map transformation (items athena_pipeline_security_lake_table_name))"
    by (simp only: set_map) (rule imageI)
  then have "transformation it \<in> ?f ` set ?mids"
    by (simp only: items_transformations set_map)
  then obtain mid where m: "mid \<in> set ?mids" and t: "transformation it = ?f mid"
    by (rule imageE)
  have "list_all brace_free ?mids"
    by (simp add: brace_free_def)
  with m have "brace_free mid"
    by (simp only: list_all_iff)
  with t show ?thesis by blast
qed

text \<open>
  Claim C10. Every item of the security-lake table-name pipeline has a plain template whose
  placeholders are \<^verbatim>\<open>backend_aws_table_region\<close> and \<^verbatim>\<open>backend_aws_table_version\<close>,
  and only the version has a default, \<^verbatim>\<open>2_0\<close>. With options that lack the region its
  transformation raises the missing-key error, whose message names
  \<^verbatim>\<open>backend_aws_table_region\<close> twice, the state key \<^verbatim>\<open>table_name\<close> and the
  available keys, and leaves the pipeline as it was; with options that hold the region alone it succeeds and
  stores the table name with the region and \<^verbatim>\<open>2_0\<close> substituted (dashes replaced by
  underscores).
\<close>

theorem table_name_region_required:
  assumes "it \<in> set (items athena_pipeline_security_lake_table_name)"
  shows "plain_template (template (transformation it))
    \<and> placeholders (template (transformation it))
        = [''backend_aws_table_region'', ''backend_aws_table_version'']
    \<and> default_values (transformation it) = [(''backend_aws_table_version'', ''2_0'')]
    \<and> (''backend_aws_table_region'' \<notin> set (dict_keys (vars p)) \<longrightarrow>
         SetStateFromBackendOptionsTransformationDashToUnderscore_apply ext (transformation it) p
         = (Some (KeyError
              (''Missing key '' @ [CHR 0x27] @ ''backend_aws_table_region'' @ [CHR 0x27]
                 @ '' in template substitution for '' @ [CHR 0x27] @ ''table_name''
                 @ [CHR 0x27] @ ''. ''
               @ ''Available keys: ''
                 @ py_repr_list
                     (dict_keys (dict_merge [(''backend_aws_table_version'', ''2_0'')] (vars p)))
                 @ ''. ''
               @ ''You likely need to set the key '' @ [CHR 0x27]
                 @ ''backend_aws_table_region'' @ [CHR 0x27] @ '' via '' @ [CHR 0x27]
                 @ ''backend options'' @ [CHR 0x27] @ ''.'')), p))
    \<and> (vars p = [(''backend_aws_table_region'', r)] \<longrightarrow>
         (\<exists>mid. template (transformation it)
                  = ''amazon_security_lake_table_{backend_aws_table_region}'' @ mid
                      @ ''{backend_aws_table_version}''
            \<and> SetStateFromBackendOptionsTransformationDashToUnderscore_apply ext (transformation it) p
              = (None, p\<lparr>state := (state p)(''table_name'' \<mapsto>
                   replace_char CHR ''-'' CHR ''_''
                     (''amazon_security_lake_table_'' @ r @ mid @ ''2_0''))\<rparr>)))"
proof -
  from items_shape [OF assms] obtain mid where bf: "brace_free mid"
    and t: "transformation it = \<lparr>key = ''table_name'',
         template = ''amazon_security_lake_table_{backend_aws_table_region}'' @ mid
            @ ''{backend_aws_table_version}'',
         default_values = [(''backend_aws_table_version'', ''2_0'')]\<rparr>"
    by blast
  let ?T = "''amazon_security_lake_table_{backend_aws_table_region}'' @ mid
            @ ''{backend_aws_table_version}''"
  have a: "plain_template (template (transformation it))
    \<and> placeholders (template (transformation it))
        = [''backend_aws_table_region'', ''backend_aws_table_version'']"
    using table_placeholders [OF bf] by (simp add: t)
  have b: "default_values (transformation it) = [(''backend_aws_table_version'', ''2_0'')]"
    by (simp add: t)
  have c: "SetStateFromBackendOptionsTransformationDashToUnderscore_apply ext (transformation it) p
         = (Some (KeyError (missing_key_message ''backend_aws_table_region'' ''table_name''
              (dict_keys (dict_merge [(''backend_aws_table_version'', ''2_0'')] (vars p))))), p)"
    if "''backend_aws_table_region'' \<notin> set (dict_keys (vars p))"
  proof -
    from that have "''backend_aws_table_region''
        \<notin> set (dict_keys (dict_merge [(''backend_aws_table_version'', ''2_0'')] (vars p)))"
      by (simp add: set_keys_merge) (simp add: dict_keys_def)
    from table_missing_region [OF bf this]
    have "format_map ext (template (transformation it))
        (dict_merge (default_values (transformation it)) (vars p))
        = Inl (KeyError ''backend_aws_table_region'')"
      by (simp add: t)
    from apply_dash_KeyError [OF this] show ?thesis
      by (simp add: t)
  qed
  have d: "SetStateFromBackendOptionsTransformationDashToUnderscore_apply ext (transformation it) p
              = (None, p\<lparr>state := (state p)(''table_name'' \<mapsto>
                   replace_char CHR ''-'' CHR ''_''
                     (''amazon_security_lake_table_'' @ r @ mid @ ''2_0''))\<rparr>)"
    if "vars p = [(''backend_aws_table_region'', r)]"
  proof -
    have "dict_merge (default_values (transformation it)) (vars p)
        = [(''backend_aws_table_version'', ''2_0''), (''backend_aws_table_region'', r)]"
      by (simp add: t that dict_merge_def)
    with table_region_only [OF bf, of ext r]
    have "format_map ext (template (transformation it))
        (dict_merge (default_values (transformation it)) (vars p))
        = Inr (''amazon_security_lake_table_'' @ r @ mid @ ''2_0'')"
      by (simp add: t)
    from apply_dash_success [OF this] show ?thesis
      by (simp add: t)
  qed
  have e: "template (transformation it) = ?T"
    by (simp add: t)
  have c': "SetStateFromBackendOptionsTransformationDashToUnderscore_apply ext (transformation it) p
         = (Some (KeyError
              (''Missing key '' @ [CHR 0x27] @ ''backend_aws_table_region'' @ [CHR 0x27]
                 @ '' in template substitution for '' @ [CHR 0x27] @ ''table_name''
                 @ [CHR 0x27] @ ''. ''
               @ ''Available keys: ''
                 @ py_repr_list
                     (dict_keys (dict_merge [(''backend_aws_table_version'', ''2_0'')] (vars p)))
                 @ ''. ''
               @ ''You likely need to set the key '' @ [CHR 0x27]
                 @ ''backend_aws_table_region'' @ [CHR 0x27] @ '' via '' @ [CHR 0x27]
                 @ ''backend options'' @ [CHR 0x27] @ ''.'')), p)"
    if "''backend_aws_table_region'' \<notin> set (dict_keys (vars p))"
    using c [OF that] by (simp add: missing_key_message_def quote_def)
  from a b c' d e show ?thesis
    by blast
qed

theorem table_name_region_required_witness:
  "SetStateFromBackendOptionsTransformationDashToUnderscore_apply unsupported_field
     \<lparr>key = ''table_name'',
      template = ''amazon_security_lake_table_{backend_aws_table_region}_cloud_trail_mgmt_{backend_aws_table_version}'',
      default_values = [(''backend_aws_table_version'', ''2_0'')]\<rparr>
     \<lparr>vars = [], state = Map.empty\<rparr>
   = (Some (KeyError
        (''Missing key '' @ [CHR 0x27] @ ''backend_aws_table_region'' @ [CHR 0x27]
          @ '' in template substitution for '' @ [CHR 0x27] @ ''table_name'' @ [CHR 0x27]
          @ ''. Available keys: ['' @ [CHR 0x27] @ ''backend_aws_table_version'' @ [CHR 0x27]
          @ '']. You likely need to set the key '' @ [CHR 0x27] @ ''backend_aws_table_region''
          @ [CHR 0x27] @ '' via '' @ [CHR 0x27] @ ''backend options'' @ [CHR 0x27] @ ''.'')),
      \<lparr>vars = [], state = Map.empty\<rparr>)
   \<and> SetStateFromBackendOptionsTransformationDashToUnderscore_apply unsupported_field
     \<lparr>key = ''table_name'',
      template = ''amazon_security_lake_table_{backend_aws_table_region}_cloud_trail_mgmt_{backend_aws_table_version}'',
      default_values = [(''backend_aws_table_version'', ''2_0'')]\<rparr>
     \<lparr>vars = [(''backend_aws_table_region'', ''eu-west-1'')], state = Map.empty\<rparr>
   = (None, \<lparr>vars = [(''backend_aws_table_region'', ''eu-west-1'')],
             state = [''table_name'' \<mapsto> ''amazon_security_lake_table_eu_west_1_cloud_trail_mgmt_2_0'']\<rparr>)"
proof -
  let ?T = "\<lparr>key = ''table_name'',
      template = ''amazon_security_lake_table_{backend_aws_table_region}_cloud_trail_mgmt_{backend_aws_table_version}'',
      default_values = [(''backend_aws_table_version'', ''2_0'')]\<rparr>"
  let ?it = "\<lparr>item_identifier = ''table_amazon_security_lake_table_{backend_aws_table_region}_cloud_trail_mgmt_{backend_aws_table_version}'',
      transformation = ?T,
      rule_conditions = [\<lparr>product = ''aws'', service = ''cloudtrail''\<rparr>]\<rparr>"
  let ?ext = "unsupported_field"
  let ?p1 = "\<lparr>vars = [], state = (Map.empty :: string \<rightharpoonup> string)\<rparr>"
  let ?p2 = "\<lparr>vars = [(''backend_aws_table_region'', ''eu-west-1'')],
              state = (Map.empty :: string \<rightharpoonup> string)\<rparr>"
  have mem: "?it \<in> set (items athena_pipeline_security_lake_table_name)"
    by (simp add: athena_pipeline_security_lake_table_name_def sources_def)
  have 1: "SetStateFromBackendOptionsTransformationDashToUnderscore_apply ?ext ?T ?p1
      = (Some (KeyError
        (''Missing key '' @ [CHR 0x27] @ ''backend_aws_table_region'' @ [CHR 0x27]
          @ '' in template substitution for '' @ [CHR 0x27] @ ''table_name'' @ [CHR 0x27]
          @ ''. Available keys: ['' @ [CHR 0x27] @ ''backend_aws_table_version'' @ [CHR 0x27]
          @ '']. You likely need to set the key '' @ [CHR 0x27] @ ''backend_aws_table_region''
          @ [CHR 0x27] @ '' via '' @ [CHR 0x27] @ ''backend options'' @ [CHR 0x27] @ ''.'')), ?p1)"
    using table_name_region_required [OF mem, where p = ?p1 and ext = ?ext]
    by (simp add: dict_keys_def dict_merge_def py_repr_list_def py_repr_def repr_char_def
          py_printable_def backslash_def Let_def)
  from table_name_region_required [OF mem, where p = ?p2 and r = "''eu-west-1''" and ext = ?ext]
  obtain mid where
    m: "''amazon_security_lake_table_{backend_aws_table_region}_cloud_trail_mgmt_{backend_aws_table_version}''
        = ''amazon_security_lake_table_{backend_aws_table_region}'' @ mid
            @ ''{backend_aws_table_version}''"
    and r: "SetStateFromBackendOptionsTransformationDashToUnderscore_apply ?ext ?T ?p2
        = (None, ?p2\<lparr>state := (state ?p2)(''table_name'' \<mapsto> replace_char CHR ''-'' CHR ''_''
             (''amazon_security_lake_table_'' @ ''eu-west-1'' @ mid @ ''2_0''))\<rparr>)"
    by auto
  have "''amazon_security_lake_table_{backend_aws_table_region}'' @ ''_cloud_trail_mgmt_''
            @ ''{backend_aws_table_version}''
      = ''amazon_security_lake_table_{backend_aws_table_region}'' @ mid
            @ ''{backend_aws_table_version}''"
    using m by simp
  then have "mid = ''_cloud_trail_mgmt_''"
    by (simp only: same_append_eq append_same_eq)
  with r have 2: "SetStateFromBackendOptionsTransformationDashToUnderscore_apply ?ext ?T ?p2
      = (None, \<lparr>vars = [(''backend_aws_table_region'', ''eu-west-1'')],
             state = [''table_name'' \<mapsto> ''amazon_security_lake_table_eu_west_1_cloud_trail_mgmt_2_0'']\<rparr>)"
    by (simp add: replace_char_def)
  from 1 2 show ?thesis
    by (rule conjI)
qed

section \<open>Properties of the translator\<close>

subsection \<open>The outputs the tests assert\<close>

lemma example_cased_contains:
  "compile_leaf unspecified_regex
     \<lparr>field = \<lparr>ref_name = ''fieldA'', is_unmapped = False\<rparr>, modifier_stack = [Cased, Contains],
      condition_values = [Literal ''SubString''], negated = False\<rparr> =
   Inr (''fieldA LIKE '' @ [CHR 0x27] @ ''%SubString%'' @ [CHR 0x27] @
        '' ESCAPE '' @ [CHR 0x27, CHR 0x5C, CHR 0x27])"
  by (simp add: compile_leaf_def resolve_modifiers_def resolve_identifier_def quote_segment_def
      ident_char_def assemble_def sql_string_def escaper_def bracket_def pattern_body_def
      translate_wildcards_def pattern_shape_def escape_like_def like_metachar_def
      escape_clause_def quote_def backslash_def)

lemma example_not_fieldref:
  "compile_leaf unspecified_regex
     \<lparr>field = \<lparr>ref_name = ''fieldA'', is_unmapped = False\<rparr>, modifier_stack = [Fieldref],
      condition_values = [Ref \<lparr>ref_name = ''fieldB'', is_unmapped = False\<rparr>], negated = True\<rparr> =
   Inr ''NOT LOWER(fieldA) = LOWER(fieldB)''"
  by (simp add: compile_leaf_def resolve_modifiers_def resolve_identifier_def quote_segment_def
      ident_char_def assemble_def backslash_def)

lemma example_element_at_cased_startswith:
  "compile_leaf unspecified_regex
     \<lparr>field = \<lparr>ref_name = ''unmapped.serviceEventDetails.account_id'', is_unmapped = True\<rparr>,
      modifier_stack = [Cased, Startswith],
      condition_values = [Literal ''AWS''], negated = False\<rparr> =
   Inr (''element_at(unmapped, '' @ [CHR 0x27] @ ''serviceEventDetails.account_id'' @ [CHR 0x27] @
        '') LIKE '' @ [CHR 0x27] @ ''AWS%'' @ [CHR 0x27] @
        '' ESCAPE '' @ [CHR 0x27, CHR 0x5C, CHR 0x27])"
  by (simp add: compile_leaf_def resolve_modifiers_def resolve_identifier_def
      assemble_def sql_string_def escaper_def bracket_def pattern_body_def
      translate_wildcards_def pattern_shape_def escape_like_def like_metachar_def
      escape_clause_def quote_def backslash_def)

lemma example_cased_regex:
  "compile_leaf regex
     \<lparr>field = \<lparr>ref_name = ''fieldA'', is_unmapped = False\<rparr>, modifier_stack = [Cased, Re],
      condition_values = [Literal ''Foo.*bar''], negated = False\<rparr> =
   Inl (ModifierValueError ''Regular expression modifier only applicable to unmodified values'')"
  by (simp add: compile_leaf_def resolve_modifiers_def)

subsection \<open>Characters of the pattern body\<close>

lemma lower_char_fixed:
  "lower_char CHR ''*'' = CHR ''*''" "lower_char CHR ''?'' = CHR ''?''"
  "lower_char CHR ''%'' = CHR ''%''" "lower_char CHR ''_'' = CHR ''_''"
  "lower_char CHR 0x5C = CHR 0x5C"
  by (simp_all add: lower_char_def)

lemma lower_char_metachar: "like_metachar c \<Longrightarrow> lower_char c = c"
  using lower_char_fixed by (auto simp add: like_metachar_def backslash_def)

lemma lower_char_range:
  "lower_char c = c \<or> lower_char c \<in> set ''abcdefghijklmnopqrstuvwxyz''"
proof (cases "map_of (zip ''ABCDEFGHIJKLMNOPQRSTUVWXYZ'' ''abcdefghijklmnopqrstuvwxyz'') c")
  case None
  then show ?thesis
    by (simp only: lower_char_def option.case simp_thms)
next
  case (Some l)
  then have "(c, l) \<in> set (zip ''ABCDEFGHIJKLMNOPQRSTUVWXYZ'' ''abcdefghijklmnopqrstuvwxyz'')"
    by (rule map_of_SomeD)
  then have "l \<in> set ''abcdefghijklmnopqrstuvwxyz''"
    by (rule set_zip_rightD)
  moreover have "lower_char c = l"
    using Some by (simp only: lower_char_def option.case)
  ultimately show ?thesis
    by (simp only: simp_thms)
qed

lemma lower_char_not_wildcard:
  "lower_char c = CHR ''*'' \<longleftrightarrow> c = CHR ''*''" "lower_char c = CHR ''?'' \<longleftrightarrow> c = CHR ''?''"
  "lower_char c = CHR ''%'' \<longleftrightarrow> c = CHR ''%''" "lower_char c = CHR ''_'' \<longleftrightarrow> c = CHR ''_''"
  "lower_char c = CHR 0x5C \<longleftrightarrow> c = CHR 0x5C"
  using lower_char_range [of c] lower_char_fixed by auto

lemma wildcard_not_lower_char:
  "CHR ''*'' = lower_char c \<longleftrightarrow> c = CHR ''*''" "CHR ''?'' = lower_char c \<longleftrightarrow> c = CHR ''?''"
  using lower_char_not_wildcard(1,2) [of c] by auto

text \<open>The body of a pattern, character by character of the source literal: a metacharacter
  of LIKE is that character behind one backslash, a wildcard of the rule is the wildcard of
  LIKE, and every other character is itself, lower-cased unless the comparison is
  case-sensitive.\<close>

lemma pattern_body_chars:
  assumes "pattern_shape shape"
  shows "pattern_body shape cs lit =
           concat (map (\<lambda>c. if like_metachar c then [backslash, c]
                            else if c = CHR ''?'' then ''_''
                            else if c = CHR ''*'' then ''%''
                            else [if cs then c else lower_char c]) lit)"
proof (induction lit)
  case Nil
  show ?case
    by (simp add: pattern_body_def translate_wildcards_def escape_like_def lower_def)
next
  case (Cons a lit)
  have step: "pattern_body shape cs (a # lit) =
                pattern_body shape cs [a] @ pattern_body shape cs lit"
    by (simp add: pattern_body_def translate_wildcards_def escape_like_def lower_def Let_def)
  have one: "pattern_body shape cs [a] =
               (if like_metachar a then [backslash, a]
                else if a = CHR ''?'' then ''_''
                else if a = CHR ''*'' then ''%''
                else [if cs then a else lower_char a])"
    using assms lower_char_fixed
    by (auto simp add: pattern_body_def translate_wildcards_def escape_like_def lower_def
        like_metachar_def backslash_def)
  show ?case
    by (simp only: step one Cons.IH list.map concat.simps)
qed

subsection \<open>The claims about the Modifier Resolver\<close>

text \<open>
  Claim C2, as stated, fails on the rules of section 4.2: they are tried in order, and rule 1
  comes first. A stack that holds \<^verbatim>\<open>re\<close> beside \<^verbatim>\<open>cased\<close> and \<^verbatim>\<open>fieldref\<close> fails with
  the error of the regular expression, not with the error of \<^verbatim>\<open>fieldref\<close>.
\<close>

theorem cased_fieldref_claim_counterexample:
  "Fieldref \<in> set [Cased, Fieldref, Re] \<and> Cased \<in> set [Cased, Fieldref, Re] \<and>
   resolve_modifiers [Cased, Fieldref, Re] =
     Inl (ModifierValueError ''Regular expression modifier only applicable to unmodified values'') \<and>
   resolve_modifiers [Cased, Fieldref, Re] \<noteq>
     Inl (NotSupportedError ''cased is not support with fieldref for this backend at present'')"
  by (simp add: resolve_modifiers_def)

text \<open>
  Claim C2, amended. For every field, values, negation flag and modifier stack that holds
  both \<^verbatim>\<open>fieldref\<close> and \<^verbatim>\<open>cased\<close>, the Modifier Resolver fails and the translator produces no
  expression: with the error \<open>cased is not support with fieldref for this backend at
  present\<close> when the stack has no \<^verbatim>\<open>re\<close>, and with the error of the regular expression when
  it has.
\<close>

theorem cased_fieldref_unsupported:
  assumes "Fieldref \<in> set ms" and "Cased \<in> set ms"
  shows "resolve_modifiers ms =
           Inl (if Re \<in> set ms
                then ModifierValueError
                       ''Regular expression modifier only applicable to unmodified values''
                else NotSupportedError
                       ''cased is not support with fieldref for this backend at present'')
         \<and> compile_leaf regex
             \<lparr>field = f, modifier_stack = ms, condition_values = vs, negated = n\<rparr> =
           Inl (if Re \<in> set ms
                then ModifierValueError
                       ''Regular expression modifier only applicable to unmodified values''
                else NotSupportedError
                       ''cased is not support with fieldref for this backend at present'')"
proof -
  have "\<not> list_all (\<lambda>m. m = Re) ms"
    using assms(1) by (auto simp add: list_all_iff)
  then have r: "resolve_modifiers ms =
           Inl (if Re \<in> set ms
                then ModifierValueError
                       ''Regular expression modifier only applicable to unmodified values''
                else NotSupportedError
                       ''cased is not support with fieldref for this backend at present'')"
    using assms by (simp add: resolve_modifiers_def)
  show ?thesis
    by (simp add: compile_leaf_def r)
qed

theorem cased_fieldref_unsupported_witness:
  "compile_leaf unspecified_regex
     \<lparr>field = \<lparr>ref_name = ''fieldA'', is_unmapped = False\<rparr>, modifier_stack = [Cased, Fieldref],
      condition_values = [Ref \<lparr>ref_name = ''fieldB'', is_unmapped = False\<rparr>], negated = False\<rparr> =
   Inl (NotSupportedError ''cased is not support with fieldref for this backend at present'')"
  using cased_fieldref_unsupported [where ms = "[Cased, Fieldref]" and regex = unspecified_regex
      and f = "\<lparr>ref_name = ''fieldA'', is_unmapped = False\<rparr>"
      and vs = "[Ref \<lparr>ref_name = ''fieldB'', is_unmapped = False\<rparr>]" and n = False]
  by simp

subsection \<open>The claims about the Escaper and the Assembler\<close>

text \<open>
  Claim C1, as stated, fails: under \<^verbatim>\<open>contains\<close> the literal \<^verbatim>\<open>val*a\<close> gives the pattern
  body \<^verbatim>\<open>%val%a%\<close>, as in end-to-end example 2 of the spec and in the output that
  \<^verbatim>\<open>test_athena_contains_list_with_literal_star_and_question\<close> asserts. The star has become
  a third \<^verbatim>\<open>%\<close>, and no star is left in the body.
\<close>

theorem contains_star_claim_counterexample:
  "escaper CONTAINS False ''val*a'' = ''%val%a%'' \<and>
   CHR ''*'' \<notin> set (escaper CONTAINS False ''val*a'') \<and>
   compile_leaf unspecified_regex
     \<lparr>field = \<lparr>ref_name = ''fieldA'', is_unmapped = False\<rparr>, modifier_stack = [Contains],
      condition_values = [Literal ''val*a'', Literal ''val?b'', Literal ''val_c''],
      negated = False\<rparr> =
   Inr (''LOWER(fieldA) LIKE '' @ [CHR 0x27] @ ''%val%a%'' @ [CHR 0x27] @
          '' ESCAPE '' @ [CHR 0x27, CHR 0x5C, CHR 0x27] @
        '' OR LOWER(fieldA) LIKE '' @ [CHR 0x27] @ ''%val_b%'' @ [CHR 0x27] @
          '' ESCAPE '' @ [CHR 0x27, CHR 0x5C, CHR 0x27] @
        '' OR LOWER(fieldA) LIKE '' @ [CHR 0x27] @ ''%val'' @ [CHR 0x5C] @ ''_c%'' @ [CHR 0x27] @
          '' ESCAPE '' @ [CHR 0x27, CHR 0x5C, CHR 0x27])"
proof -
  have l: "lower ''val%a'' = ''val%a''" "lower ''val_b'' = ''val_b''"
    "lower [CHR ''v'', CHR ''a'', CHR ''l'', CHR 0x5C, CHR ''_'', CHR ''c''] =
       [CHR ''v'', CHR ''a'', CHR ''l'', CHR 0x5C, CHR ''_'', CHR ''c'']"
    by (simp_all add: lower_def lower_char_def)
  have e: "escaper CONTAINS False ''val*a'' = ''%val%a%''"
    "escaper CONTAINS False ''val?b'' = ''%val_b%''"
    "escaper CONTAINS False ''val_c'' = ''%val'' @ [CHR 0x5C] @ ''_c%''"
    by (simp_all add: escaper_def bracket_def pattern_body_def translate_wildcards_def
        pattern_shape_def escape_like_def like_metachar_def backslash_def l)
  have i: "resolve_identifier \<lparr>ref_name = ''fieldA'', is_unmapped = False\<rparr> = ''fieldA''"
    by (simp add: resolve_identifier_def quote_segment_def ident_char_def backslash_def)
  have c: "compile_leaf unspecified_regex
     \<lparr>field = \<lparr>ref_name = ''fieldA'', is_unmapped = False\<rparr>, modifier_stack = [Contains],
      condition_values = [Literal ''val*a'', Literal ''val?b'', Literal ''val_c''],
      negated = False\<rparr> =
   Inr (''LOWER(fieldA) LIKE '' @ [CHR 0x27] @ ''%val%a%'' @ [CHR 0x27] @
          '' ESCAPE '' @ [CHR 0x27, CHR 0x5C, CHR 0x27] @
        '' OR LOWER(fieldA) LIKE '' @ [CHR 0x27] @ ''%val_b%'' @ [CHR 0x27] @
          '' ESCAPE '' @ [CHR 0x27, CHR 0x5C, CHR 0x27] @
        '' OR LOWER(fieldA) LIKE '' @ [CHR 0x27] @ ''%val'' @ [CHR 0x5C] @ ''_c%'' @ [CHR 0x27] @
          '' ESCAPE '' @ [CHR 0x27, CHR 0x5C, CHR 0x27])"
    by (simp add: compile_leaf_def resolve_modifiers_def i assemble_def e sql_string_def
        escape_clause_def quote_def backslash_def)
  show ?thesis
    using e(1) c by simp
qed

text \<open>
  Claim C1, amended. For every literal compiled under \<^verbatim>\<open>contains\<close>, the pattern body is
  the literal, character by character, between two \<^verbatim>\<open>%\<close>: each \<^verbatim>\<open>*\<close> is translated to
  the SQL wildcard \<^verbatim>\<open>%\<close> and each \<^verbatim>\<open>?\<close> to \<^verbatim>\<open>_\<close>, each \<^verbatim>\<open>%\<close>, \<^verbatim>\<open>_\<close> and backslash
  of the literal is behind a backslash, and every other character is itself (lower-cased
  unless the comparison is case-sensitive). So no \<^verbatim>\<open>*\<close> and no \<^verbatim>\<open>?\<close> is left in the body,
  and the \<^verbatim>\<open>%\<close> that no backslash precedes are the two brackets and one for each \<^verbatim>\<open>*\<close>.
\<close>

theorem contains_wildcards_translated:
  "escaper CONTAINS cs lit =
     ''%'' @ concat (map (\<lambda>c. if c = CHR ''*'' then ''%''
                              else if c = CHR ''?'' then ''_''
                              else if c = CHR ''%'' \<or> c = CHR ''_'' \<or> c = CHR 0x5C
                                   then [CHR 0x5C, c]
                              else [if cs then c else lower_char c]) lit) @ ''%''
   \<and> CHR ''*'' \<notin> set (escaper CONTAINS cs lit)
   \<and> CHR ''?'' \<notin> set (escaper CONTAINS cs lit)"
proof -
  have b: "pattern_body CONTAINS cs lit =
     concat (map (\<lambda>c. if c = CHR ''*'' then ''%''
                      else if c = CHR ''?'' then ''_''
                      else if c = CHR ''%'' \<or> c = CHR ''_'' \<or> c = CHR 0x5C
                           then [CHR 0x5C, c]
                      else [if cs then c else lower_char c]) lit)"
    unfolding pattern_body_chars [of CONTAINS cs lit, unfolded pattern_shape_def, simplified]
    by (rule arg_cong [where f = concat], rule map_cong)
       (auto simp add: like_metachar_def backslash_def)
  have s: "CHR ''*'' \<notin> set (pattern_body CONTAINS cs lit)"
    unfolding b by (auto simp add: wildcard_not_lower_char split: if_splits)
  have q: "CHR ''?'' \<notin> set (pattern_body CONTAINS cs lit)"
    unfolding b by (auto simp add: wildcard_not_lower_char split: if_splits)
  show ?thesis
    using s q by (simp add: escaper_def bracket_def b [symmetric])
qed

lemma pattern_body_length:
  assumes "pattern_shape shape"
  shows "length (pattern_body shape cs lit) = length lit + length (filter like_metachar lit)"
  unfolding pattern_body_chars [OF assms]
  by (induction lit) simp_all

text \<open>
  Claim C4. For every source literal compiled into a LIKE predicate (the shapes
  \<^verbatim>\<open>contains\<close>, \<^verbatim>\<open>startswith\<close> and \<^verbatim>\<open>endswith\<close>), the predicate is the identifier, the
  word LIKE, the quoted pattern and the suffix \<^verbatim>\<open> ESCAPE '\'\<close>; the pattern body is the
  literal character by character, in which each \<^verbatim>\<open>%\<close>, \<^verbatim>\<open>_\<close> and backslash of the literal
  is that character with one backslash in front of it, and every other character of the
  literal gives one character; so the body is longer than the literal by the number of
  these characters in it.
\<close>

theorem like_metachars_escaped_once:
  assumes "pattern_shape shape"
  shows "assemble regex shape cs ident lit =
           (if cs then ident else ''LOWER('' @ ident @ '')'') @ '' LIKE '' @ [CHR 0x27] @
           bracket shape
             (concat (map (\<lambda>c. if c = CHR ''%'' \<or> c = CHR ''_'' \<or> c = CHR 0x5C
                                then [CHR 0x5C, c]
                              else if c = CHR ''?'' then ''_''
                              else if c = CHR ''*'' then ''%''
                              else [if cs then c else lower_char c]) lit)) @
           [CHR 0x27] @ '' ESCAPE '' @ [CHR 0x27, CHR 0x5C, CHR 0x27]
         \<and> suffix ('' ESCAPE '' @ [CHR 0x27, CHR 0x5C, CHR 0x27])
                  (assemble regex shape cs ident lit)
         \<and> length (pattern_body shape cs lit) =
             length lit
             + length (filter (\<lambda>c. c = CHR ''%'' \<or> c = CHR ''_'' \<or> c = CHR 0x5C) lit)"
proof -
  have m: "like_metachar = (\<lambda>c. c = CHR ''%'' \<or> c = CHR ''_'' \<or> c = CHR 0x5C)"
    by (rule ext) (simp add: like_metachar_def backslash_def)
  have b: "pattern_body shape cs lit =
             concat (map (\<lambda>c. if c = CHR ''%'' \<or> c = CHR ''_'' \<or> c = CHR 0x5C
                                then [CHR 0x5C, c]
                              else if c = CHR ''?'' then ''_''
                              else if c = CHR ''*'' then ''%''
                              else [if cs then c else lower_char c]) lit)"
    unfolding pattern_body_chars [OF assms] like_metachar_def backslash_def by (rule refl)
  have a: "assemble regex shape cs ident lit =
           (if cs then ident else ''LOWER('' @ ident @ '')'') @ '' LIKE '' @ [CHR 0x27] @
           bracket shape (pattern_body shape cs lit) @
           [CHR 0x27] @ '' ESCAPE '' @ [CHR 0x27, CHR 0x5C, CHR 0x27]"
    using assms
    by (auto simp add: assemble_def pattern_shape_def sql_string_def escaper_def
        escape_clause_def quote_def backslash_def)
  have s: "suffix ('' ESCAPE '' @ [CHR 0x27, CHR 0x5C, CHR 0x27])
                  (assemble regex shape cs ident lit)"
    unfolding a suffix_def
    by (rule exI [where x = "(if cs then ident else ''LOWER('' @ ident @ '')'') @ '' LIKE '' @
          [CHR 0x27] @ bracket shape (pattern_body shape cs lit) @ [CHR 0x27]"]) simp
  have l: "length (pattern_body shape cs lit) =
             length lit
             + length (filter (\<lambda>c. c = CHR ''%'' \<or> c = CHR ''_'' \<or> c = CHR 0x5C) lit)"
    using pattern_body_length [OF assms, of cs lit] by (simp only: m)
  from a b s l show ?thesis
    by (simp only: simp_thms)
qed

theorem like_metachars_escaped_once_witness:
  "pattern_shape CONTAINS \<and>
   assemble unspecified_regex CONTAINS False ''fieldA'' ''val_c'' =
     ''LOWER(fieldA) LIKE '' @ [CHR 0x27] @ ''%val'' @ [CHR 0x5C] @ ''_c%'' @ [CHR 0x27] @
     '' ESCAPE '' @ [CHR 0x27, CHR 0x5C, CHR 0x27]"
proof -
  have p: "pattern_shape CONTAINS"
    by (simp add: pattern_shape_def)
  have l: "lower_char CHR ''v'' = CHR ''v''" "lower_char CHR ''a'' = CHR ''a''"
    "lower_char CHR ''l'' = CHR ''l''" "lower_char CHR ''c'' = CHR ''c''"
    by (simp_all add: lower_char_def)
  show ?thesis
    using like_metachars_escaped_once [OF p, where regex = unspecified_regex and cs = False
        and ident = "''fieldA''" and lit = "''val_c''", THEN conjunct1]
    by (simp add: p l bracket_def)
qed




subsection \<open>The claims about the Identifier Resolver\<close>

lemma join_Cons: "join sep (x # xs) = (if xs = [] then x else x @ sep @ join sep xs)"
  by (cases xs) simp_all

lemma add_char_nonempty: "add_char c xs \<noteq> []"
  by (cases xs) simp_all

lemma split_dots_nonempty: "split_dots n \<noteq> []"
  by (cases n) (simp_all add: add_char_nonempty)

lemma dotted_name_add_char:
  assumes "xs \<noteq> []" and "c \<noteq> CHR ''.''"
  shows "dotted_name (add_char c xs) = c # dotted_name xs"
proof -
  obtain s ss where x: "xs = s # ss"
    using assms(1) by (cases xs) auto
  show ?thesis
    using assms(2) by (simp add: x dotted_name_def join_Cons escape_dots_def)
qed

lemma dotted_name_add_dot:
  assumes "xs \<noteq> []"
  shows "dotted_name (add_char CHR ''.'' xs) = backslash # CHR ''.'' # dotted_name xs"
proof -
  obtain s ss where x: "xs = s # ss"
    using assms by (cases xs) auto
  show ?thesis
    by (simp add: x dotted_name_def join_Cons escape_dots_def)
qed

lemma dotted_name_empty_segment:
  assumes "xs \<noteq> []"
  shows "dotted_name ([] # xs) = CHR ''.'' # dotted_name xs"
  using assms by (simp add: dotted_name_def join_Cons escape_dots_def)

text \<open>Every name is the dotted name of the segments the resolver splits it into.\<close>

lemma dotted_name_split_dots: "dotted_name (split_dots n) = n"
proof (induction n rule: split_dots.induct)
  case 1
  show ?case
    by (simp add: dotted_name_def escape_dots_def)
next
  case (2 c cs)
  show ?case
  proof (cases "c = backslash \<and> take 1 cs = ''.''")
    case True
    then have cs: "cs = CHR ''.'' # drop 1 cs"
      by (cases cs) simp_all
    have "dotted_name (split_dots (c # cs)) =
            backslash # CHR ''.'' # dotted_name (split_dots (drop 1 cs))"
      using True by (simp add: dotted_name_add_dot split_dots_nonempty)
    also have "\<dots> = backslash # CHR ''.'' # drop 1 cs"
      using 2(1) True by simp
    also have "\<dots> = c # cs"
      using True cs by simp
    finally show ?thesis .
  next
    case False
    show ?thesis
    proof (cases "c = CHR ''.''")
      case True
      have "dotted_name (split_dots (c # cs)) = CHR ''.'' # dotted_name (split_dots cs)"
        using False True
        by (simp add: dotted_name_empty_segment split_dots_nonempty backslash_def)
      then show ?thesis
        using 2(2) False True by simp
    next
      case dot: False
      have "dotted_name (split_dots (c # cs)) = c # dotted_name (split_dots cs)"
        using False dot by (auto simp add: dotted_name_add_char split_dots_nonempty)
      then show ?thesis
        using 2(3) False dot by simp
    qed
  qed
qed

lemma foldr_add_char: "foldr add_char s (x # xs) = (s @ x) # xs"
  by (induction s) simp_all

text \<open>The segments are found again when no segment but the last ends with a backslash (such
  a backslash would escape the dot that follows the segment).\<close>

lemma split_dots_escape_dots:
  assumes "s \<noteq> [] \<and> last s = backslash \<longrightarrow> take 1 rest \<noteq> ''.''"
  shows "split_dots (escape_dots s @ rest) = foldr add_char s (split_dots rest)"
  using assms
proof (induction s)
  case Nil
  show ?case
    by (simp add: escape_dots_def)
next
  case (Cons c s)
  have ih: "split_dots (escape_dots s @ rest) = foldr add_char s (split_dots rest)"
    using Cons by (cases "s = []") (simp_all add: escape_dots_def)
  have e: "escape_dots (c # s) = (if c = CHR ''.'' then [backslash, c] else [c]) @ escape_dots s"
    by (simp add: escape_dots_def)
  show ?case
  proof (cases "c = CHR ''.''")
    case True
    have "escape_dots (c # s) @ rest = backslash # CHR ''.'' # (escape_dots s @ rest)"
      using True by (simp add: escape_dots_def)
    then show ?thesis
      using True by (simp add: ih)
  next
    case False
    show ?thesis
    proof (cases "c = backslash")
      case b: True
      have "take 1 (escape_dots s @ rest) \<noteq> ''.''"
      proof (cases s)
        case Nil
        then show ?thesis
          using Cons.prems b by (simp add: escape_dots_def)
      next
        case (Cons d ds)
        then show ?thesis
          by (simp add: escape_dots_def backslash_def)
      qed
      then show ?thesis
        using False by (simp add: e ih)
    next
      case nb: False
      then show ?thesis
        using False by (simp add: e ih)
    qed
  qed
qed

lemma split_dots_dotted_name:
  assumes "segs \<noteq> []" and "\<forall>s \<in> set (butlast segs). s = [] \<or> last s \<noteq> backslash"
  shows "split_dots (dotted_name segs) = segs"
  using assms
proof (induction segs rule: list_nonempty_induct)
  case (single s)
  have "split_dots (escape_dots s @ []) = foldr add_char s (split_dots [])"
    by (rule split_dots_escape_dots) simp
  then show ?case
    by (simp add: dotted_name_def foldr_add_char)
next
  case (cons s segs)
  have ih: "split_dots (dotted_name segs) = segs"
    using cons by (auto simp add: butlast.simps split: if_splits)
  have s: "s = [] \<or> last s \<noteq> backslash"
    using cons.hyps cons.prems by simp
  have d: "dotted_name (s # segs) = escape_dots s @ CHR ''.'' # dotted_name segs"
    using cons.hyps by (simp add: dotted_name_def join_Cons)
  have "split_dots (escape_dots s @ CHR ''.'' # dotted_name segs) =
          foldr add_char s (split_dots (CHR ''.'' # dotted_name segs))"
    using s by (intro split_dots_escape_dots) auto
  also have "\<dots> = foldr add_char s ([] # segs)"
    by (simp add: ih backslash_def)
  finally show ?case
    by (simp add: d foldr_add_char)
qed

lemma quote_segment_dot:
  assumes "CHR ''.'' \<in> set seg"
  shows "quote_segment seg = [CHR 0x22] @ seg @ [CHR 0x22]"
proof -
  have "\<not> ident_char CHR ''.''"
    by (simp add: ident_char_def)
  then have "\<not> list_all ident_char seg"
    using assms by (auto simp add: list_all_iff)
  then show ?thesis
    by (simp add: quote_segment_def dquote_def)
qed

lemma split_dots_empty_head:
  assumes "split_dots cs = [] # y # ys"
  shows "take 1 cs = ''.''"
proof (cases cs)
  case Nil
  then show ?thesis
    using assms by simp
next
  case (Cons c cs')
  have h: "\<And>d xs. add_char d xs \<noteq> [] # y # ys"
  proof -
    fix d xs
    show "add_char d xs \<noteq> [] # y # ys"
      by (cases xs) simp_all
  qed
  show ?thesis
    using assms h unfolding Cons
    by (auto split: if_splits)
qed

text \<open>No segment that the resolver finds, but the last, ends with a backslash.\<close>

lemma split_dots_wellformed:
  "\<forall>s \<in> set (butlast (split_dots n)). s = [] \<or> last s \<noteq> backslash"
proof (induction n rule: split_dots.induct)
  case 1
  show ?case
    by simp
next
  case (2 c cs)
  show ?case
  proof (cases "c = backslash \<and> take 1 cs = ''.''")
    case True
    obtain s ss where x: "split_dots (drop 1 cs) = s # ss"
      using split_dots_nonempty [of "drop 1 cs"] by (cases "split_dots (drop 1 cs)") auto
    have ih: "\<forall>s \<in> set (butlast (s # ss)). s = [] \<or> last s \<noteq> backslash"
      using 2(1) True x by simp
    have "split_dots (c # cs) = (CHR ''.'' # s) # ss"
      using True x by simp
    then show ?thesis
      using ih by (auto simp add: backslash_def split: if_splits)
  next
    case False
    show ?thesis
    proof (cases "c = CHR ''.''")
      case True
      have ih: "\<forall>s \<in> set (butlast (split_dots cs)). s = [] \<or> last s \<noteq> backslash"
        using 2(2) False True by simp
      have "split_dots (c # cs) = [] # split_dots cs"
        using False True by auto
      then show ?thesis
        using ih split_dots_nonempty [of cs] by simp
    next
      case dot: False
      obtain s ss where x: "split_dots cs = s # ss"
        using split_dots_nonempty [of cs] by (cases "split_dots cs") auto
      have ih: "\<forall>s \<in> set (butlast (s # ss)). s = [] \<or> last s \<noteq> backslash"
        using 2(3) False dot x by simp
      have r: "split_dots (c # cs) = (c # s) # ss"
        using False dot x by auto
      show ?thesis
      proof (cases "ss = []")
        case True
        then show ?thesis
          unfolding r by simp
      next
        case ne: False
        then obtain y ys where ss: "ss = y # ys"
          by (cases ss) auto
        have "c # s = [] \<or> last (c # s) \<noteq> backslash"
        proof (cases "s = []")
          case True
          then have "take 1 cs = ''.''"
            using x ss split_dots_empty_head [of cs y ys] by simp
          then have "c \<noteq> backslash"
            using False by simp
          then show ?thesis
            using True by simp
        next
          case False
          then show ?thesis
            using ih ne by simp
        qed
        then show ?thesis
          using ih ne unfolding r by simp
      qed
    qed
  qed
qed

text \<open>
  Claim C6. Take segments, of which none but the last ends with a backslash, and the field
  name that writes them with dots between them and a backslash before each dot inside a
  segment. If the field is unmapped, the Identifier Resolver emits
  \<^verbatim>\<open>element_at(<container>, '<path>')\<close>: the container is the first segment and the path
  the other segments joined by dots. If the field is mapped, it emits the segments joined by
  dots, each quoted when it needs it, and a segment with a dot in it (the dot was escaped in
  the name) is put in double quotes. Every field name is of this form: it is the dotted name
  of the segments the resolver splits it into.
\<close>

theorem identifier_resolution:
  "((\<forall>s \<in> set (butlast (container # path)). s = [] \<or> last s \<noteq> CHR 0x5C) \<longrightarrow>
      resolve_identifier \<lparr>ref_name = dotted_name (container # path), is_unmapped = True\<rparr> =
        ''element_at('' @ container @ '', '' @ [CHR 0x27] @ join ''.'' path @ [CHR 0x27] @ '')''
      \<and> resolve_identifier \<lparr>ref_name = dotted_name (container # path), is_unmapped = False\<rparr> =
          join ''.'' (map quote_segment (container # path)))
   \<and> (CHR ''.'' \<in> set seg \<longrightarrow> quote_segment seg = [CHR 0x22] @ seg @ [CHR 0x22])
   \<and> split_dots n \<noteq> [] \<and> dotted_name (split_dots n) = n
   \<and> (\<forall>s \<in> set (butlast (split_dots n)). s = [] \<or> last s \<noteq> CHR 0x5C)"
proof -
  have a: "(\<forall>s \<in> set (butlast (container # path)). s = [] \<or> last s \<noteq> CHR 0x5C) \<longrightarrow>
      resolve_identifier \<lparr>ref_name = dotted_name (container # path), is_unmapped = True\<rparr> =
        ''element_at('' @ container @ '', '' @ [CHR 0x27] @ join ''.'' path @ [CHR 0x27] @ '')''
      \<and> resolve_identifier \<lparr>ref_name = dotted_name (container # path), is_unmapped = False\<rparr> =
          join ''.'' (map quote_segment (container # path))"
  proof
    assume "\<forall>s \<in> set (butlast (container # path)). s = [] \<or> last s \<noteq> CHR 0x5C"
    then have "\<forall>s \<in> set (butlast (container # path)). s = [] \<or> last s \<noteq> backslash"
      by (simp only: backslash_def)
    then have s: "split_dots (dotted_name (container # path)) = container # path"
      by (intro split_dots_dotted_name) simp_all
    show "resolve_identifier \<lparr>ref_name = dotted_name (container # path), is_unmapped = True\<rparr> =
        ''element_at('' @ container @ '', '' @ [CHR 0x27] @ join ''.'' path @ [CHR 0x27] @ '')''
      \<and> resolve_identifier \<lparr>ref_name = dotted_name (container # path), is_unmapped = False\<rparr> =
          join ''.'' (map quote_segment (container # path))"
      by (simp add: resolve_identifier_def s quote_def)
  qed
  have b: "CHR ''.'' \<in> set seg \<longrightarrow> quote_segment seg = [CHR 0x22] @ seg @ [CHR 0x22]"
    using quote_segment_dot by blast
  have c: "\<forall>s \<in> set (butlast (split_dots n)). s = [] \<or> last s \<noteq> CHR 0x5C"
    using split_dots_wellformed [of n] by (simp only: backslash_def)
  from a b c split_dots_nonempty [of n] dotted_name_split_dots [of n] show ?thesis
    by (intro conjI)
qed

theorem identifier_resolution_witness:
  "resolve_identifier
     \<lparr>ref_name = ''unmapped.serviceEventDetails.account_id'', is_unmapped = True\<rparr> =
     ''element_at(unmapped, '' @ [CHR 0x27] @ ''serviceEventDetails.account_id'' @ [CHR 0x27]
       @ '')'' \<and>
   resolve_identifier
     \<lparr>ref_name = ''actor.user'' @ [CHR 0x5C] @ ''.uid'', is_unmapped = False\<rparr> =
     ''actor.'' @ [CHR 0x22] @ ''user.uid'' @ [CHR 0x22]"
proof -
  have 1: "resolve_identifier
     \<lparr>ref_name = ''unmapped.serviceEventDetails.account_id'', is_unmapped = True\<rparr> =
     ''element_at(unmapped, '' @ [CHR 0x27] @ ''serviceEventDetails.account_id'' @ [CHR 0x27]
       @ '')''"
    using identifier_resolution [where container = "''unmapped''"
        and path = "[''serviceEventDetails'', ''account_id'']", THEN conjunct1]
    by (simp add: dotted_name_def escape_dots_def)
  have 2: "resolve_identifier
     \<lparr>ref_name = ''actor.user'' @ [CHR 0x5C] @ ''.uid'', is_unmapped = False\<rparr> =
     ''actor.'' @ [CHR 0x22] @ ''user.uid'' @ [CHR 0x22]"
    using identifier_resolution [where container = "''actor''" and path = "[''user.uid'']"
        and seg = "''user.uid''"]
    by (simp add: dotted_name_def escape_dots_def backslash_def quote_segment_def
        ident_char_def dquote_def)
  from 1 2 show ?thesis
    by (rule conjI)
qed

end
